theory Spec2Isabelle
  imports Complex_Main "HOL-Library.Option_ord"
begin

section \<open>Python strings\<close>

text \<open>
  A Python \<open>str\<close> is modelled as a \<open>string\<close>; a \<open>char\<close> stands for the code point with
  the same number, so the model covers the code points below 256. The predicates below
  are \<open>str.isspace\<close>, \<open>str.isprintable\<close> and \<open>str.lower\<close> on that range.
\<close>

definition isspace :: "char \<Rightarrow> bool" where
  "isspace c = (let n = (of_char c :: nat) in
     (9 \<le> n \<and> n \<le> 13) \<or> (28 \<le> n \<and> n \<le> 32) \<or> n = 133 \<or> n = 160)"

definition isprintable :: "char \<Rightarrow> bool" where
  "isprintable c = (let n = (of_char c :: nat) in
     (32 \<le> n \<and> n \<le> 126) \<or> (161 \<le> n \<and> n \<noteq> 173))"

definition lower_char :: "char \<Rightarrow> char" where
  "lower_char c = (let n = (of_char c :: nat) in
     if (65 \<le> n \<and> n \<le> 90) \<or> (192 \<le> n \<and> n \<le> 222 \<and> n \<noteq> 215)
     then char_of (n + 32) else c)"

definition lower :: "string \<Rightarrow> string" where
  "lower s = map lower_char s"

text \<open>\<open>s.strip()\<close>, \<open>s.rstrip(c)\<close> for a one-character argument, \<open>s.startswith(p)\<close>.\<close>

definition strip :: "string \<Rightarrow> string" where
  "strip s = rev (dropWhile isspace (rev (dropWhile isspace s)))"

definition rstrip :: "char \<Rightarrow> string \<Rightarrow> string" where
  "rstrip c s = rev (dropWhile (\<lambda>x. x = c) (rev s))"

fun startswith :: "string \<Rightarrow> string \<Rightarrow> bool" where
  "startswith s [] = True"
| "startswith [] (p # ps) = False"
| "startswith (c # cs) (p # ps) = (c = p \<and> startswith cs ps)"

text \<open>\<open>k in s\<close> for strings: \<open>k\<close> occurs in \<open>s\<close> as a contiguous substring.\<close>

fun str_contains :: "string \<Rightarrow> string \<Rightarrow> bool" where
  "str_contains [] k = (k = [])"
| "str_contains (c # cs) k = (startswith (c # cs) k \<or> str_contains cs k)"

text \<open>\<open>s.split()\<close>: the maximal runs of non-whitespace characters, in order.\<close>

fun words_from :: "string \<Rightarrow> string \<Rightarrow> string list" where
  "words_from w [] = (if w = [] then [] else [w])"
| "words_from w (c # cs) =
     (if isspace c then (if w = [] then words_from [] cs else w # words_from [] cs)
      else words_from (w @ [c]) cs)"

definition split_ws :: "string \<Rightarrow> string list" where
  "split_ws s = words_from [] s"

text \<open>\<open>s.split(d)\<close> for a one-character separator: the empty string splits to \<open>['']\<close>.\<close>

fun split_from :: "char \<Rightarrow> string \<Rightarrow> string \<Rightarrow> string list" where
  "split_from d w [] = [w]"
| "split_from d w (c # cs) =
     (if c = d then w # split_from d [] cs else split_from d (w @ [c]) cs)"

definition split_on :: "char \<Rightarrow> string \<Rightarrow> string list" where
  "split_on d s = split_from d [] s"

text \<open>\<open>sep.join(xs)\<close>.\<close>

fun join :: "string \<Rightarrow> string list \<Rightarrow> string" where
  "join sep [] = []"
| "join sep [x] = x"
| "join sep (x # y # ys) = x @ sep @ join sep (y # ys)"

text \<open>
  \<open>re.sub(r'<[^>]+>', '', s)\<close>. At a \<open><\<close> the pattern matches exactly when the run of
  characters other than \<open>>\<close> that follows is non-empty and is followed by a \<open>>\<close>;
  \<open>tag_end\<close> returns what is left after such a match. Matches are found left to right
  and do not overlap.
\<close>

definition tag_end :: "string \<Rightarrow> string option" where
  "tag_end cs =
     (let body = takeWhile (\<lambda>x. x \<noteq> CHR ''>'') cs;
          rest = dropWhile (\<lambda>x. x \<noteq> CHR ''>'') cs
      in if body = [] \<or> rest = [] then None else Some (tl rest))"

lemma tag_end_shorter: "tag_end cs = Some r \<Longrightarrow> length r < Suc (length cs)"
proof -
  assume a: "tag_end cs = Some r"
  have "length (dropWhile (\<lambda>x. x \<noteq> CHR ''>'') cs) \<le> length cs"
    by (rule length_dropWhile_le)
  moreover from a have "r = tl (dropWhile (\<lambda>x. x \<noteq> CHR ''>'') cs)"
    by (simp add: tag_end_def Let_def split: if_splits)
  ultimately show ?thesis by simp
qed

function remove_tags :: "string \<Rightarrow> string" where
  "remove_tags [] = []"
| "remove_tags (c # cs) =
     (if c = CHR ''<'' then
        (case tag_end cs of
           Some r \<Rightarrow> remove_tags r
         | None \<Rightarrow> c # remove_tags cs)
      else c # remove_tags cs)"
  by pat_completeness auto
termination
  by (relation "measure length") (auto dest: tag_end_shorter)

section \<open>Entity model (src/models/entities.py)\<close>

text \<open>
  Values of type \<open>Any\<close> (the raw payload, the configuration blobs) are JSON documents.
  A \<open>datetime\<close> is a point on the time line, an \<open>int\<close>; a score is a rational number.
  A \<open>dict\<close> whose keys are strings is an association list in insertion order.
\<close>

datatype json =
    JNull
  | JBool bool
  | JNum rat
  | JStr string
  | JArr "json list"
  | JObj "(string \<times> json) list"

type_synonym datetime = int

record Reference =
  url :: string
  ref_source :: string
  ref_type :: string
  tags :: "string list"

record CVSSMetrics =
  cvss_version :: string
  vector_string :: string
  base_score :: rat
  base_severity :: "string option"
  exploitability_score :: "rat option"
  impact_score :: "rat option"
  cvss_status :: "string option"

record Version =
  version :: string
  release :: "string option"
  architecture :: "string option"
  ver_status :: string
  repositories :: "string list"

record Package =
  name :: string
  ecosystem :: "string option"
  platform :: "string option"
  versions :: "Version list"
  affected_versions :: "string list"
  fixed_versions :: "string list"

record Vulnerability =
  vuln_id :: string
  source :: string
  title :: "string option"
  description :: "string option"
  published_date :: "datetime option"
  last_modified_date :: "datetime option"
  discovered_date :: "datetime option"
  severity :: "string option"
  cvss_v3 :: "CVSSMetrics option"
  cvss_v2 :: "CVSSMetrics option"
  status :: string
  scope :: "string option"
  affected_packages :: "Package list"
  affected_configurations :: "json list"
  references :: "Reference list"
  patches :: "(string \<times> string) list list"
  vuln_notes :: "string list"
  raw_data :: "(string \<times> json) list"

text \<open>The constructors with the default values of the dataclasses.\<close>

definition Reference_init :: "string \<Rightarrow> Reference" where
  "Reference_init u = \<lparr> url = u, ref_source = ''unknown'', ref_type = ''other'', tags = [] \<rparr>"

definition CVSSMetrics_init :: "string \<Rightarrow> string \<Rightarrow> rat \<Rightarrow> CVSSMetrics" where
  "CVSSMetrics_init v vec score =
     \<lparr> cvss_version = v, vector_string = vec, base_score = score, base_severity = None,
       exploitability_score = None, impact_score = None, cvss_status = None \<rparr>"

definition Package_init :: "string \<Rightarrow> Package" where
  "Package_init n =
     \<lparr> name = n, ecosystem = None, platform = None, versions = [],
       affected_versions = [], fixed_versions = [] \<rparr>"

definition Vulnerability_init :: "string \<Rightarrow> string \<Rightarrow> Vulnerability" where
  "Vulnerability_init i src =
     \<lparr> vuln_id = i, source = src, title = None, description = None,
       published_date = None, last_modified_date = None, discovered_date = None,
       severity = None, cvss_v3 = None, cvss_v2 = None, status = ''unknown'',
       scope = None, affected_packages = [], affected_configurations = [],
       references = [], patches = [], vuln_notes = [], raw_data = [] \<rparr>"

text \<open>Truthiness of an \<open>Optional[str]\<close>: \<open>None\<close> and the empty string are false.\<close>

definition truthy :: "string option \<Rightarrow> bool" where
  "truthy s = (case s of None \<Rightarrow> False | Some x \<Rightarrow> x \<noteq> [])"

text \<open>\<open>d.get(k, default)\<close> on a dictionary with string values.\<close>

definition dict_get :: "(string \<times> 'a) list \<Rightarrow> string \<Rightarrow> 'a \<Rightarrow> 'a" where
  "dict_get d k dflt = (case map_of d k of None \<Rightarrow> dflt | Some v \<Rightarrow> v)"

section \<open>Cleaning pipeline (src/services/cleaner.py)\<close>

definition clean_description :: "string option \<Rightarrow> string option" where
  "clean_description desc =
     (if \<not> truthy desc then None
      else Some (filter isprintable (join '' '' (split_ws (remove_tags (the desc))))))"

text \<open>The loop of \<open>clean_references\<close>, with its two accumulators.\<close>

fun clean_references_loop ::
  "Reference list \<Rightarrow> Reference list \<Rightarrow> string set \<Rightarrow> Reference list" where
  "clean_references_loop [] cleaned_refs seen_urls = cleaned_refs"
| "clean_references_loop (ref # refs) cleaned_refs seen_urls =
     (if url ref = [] then clean_references_loop refs cleaned_refs seen_urls
      else
        let u = rstrip CHR ''/'' (strip (url ref));
            u = (if startswith u ''http://'' \<or> startswith u ''https://'' then u
                 else ''https://'' @ u)
        in if u \<in> seen_urls then clean_references_loop refs cleaned_refs seen_urls
           else clean_references_loop refs (cleaned_refs @ [ref\<lparr>url := u\<rparr>])
                  (insert u seen_urls))"

definition clean_references :: "Reference list \<Rightarrow> Reference list" where
  "clean_references refs = clean_references_loop refs [] {}"

fun clean_versions_loop ::
  "Version list \<Rightarrow> Version list \<Rightarrow> string set \<Rightarrow> Version list" where
  "clean_versions_loop [] cleaned_versions seen_versions = cleaned_versions"
| "clean_versions_loop (ver # vers) cleaned_versions seen_versions =
     (let v = strip (version ver)
      in if v \<noteq> [] \<and> v \<notin> seen_versions
         then clean_versions_loop vers (cleaned_versions @ [ver\<lparr>version := v\<rparr>])
                (insert v seen_versions)
         else clean_versions_loop vers cleaned_versions seen_versions)"

text \<open>
  \<open>list(set(v.strip() for v in vs if v.strip()))\<close>. Python leaves the order of the
  resulting list open; the model lists the elements in order of first occurrence.
\<close>

definition clean_version_strings :: "string list \<Rightarrow> string list" where
  "clean_version_strings vs = remdups (map strip (filter (\<lambda>v. strip v \<noteq> []) vs))"

definition clean_package :: "Package \<Rightarrow> Package" where
  "clean_package pkg =
     pkg\<lparr> name := lower (strip (name pkg)),
          ecosystem := (if truthy (ecosystem pkg)
                        then Some (lower (strip (the (ecosystem pkg))))
                        else ecosystem pkg),
          versions := clean_versions_loop (versions pkg) [] {},
          affected_versions := clean_version_strings (affected_versions pkg),
          fixed_versions := clean_version_strings (fixed_versions pkg) \<rparr>"

fun clean_patches_loop ::
  "(string \<times> string) list list \<Rightarrow> (string \<times> string) list list \<Rightarrow> string set
     \<Rightarrow> (string \<times> string) list list" where
  "clean_patches_loop [] cleaned_patches seen_urls = cleaned_patches"
| "clean_patches_loop (patch # ps) cleaned_patches seen_urls =
     (let u = strip (dict_get patch ''url'' [])
      in if u \<noteq> [] \<and> u \<notin> seen_urls
         then clean_patches_loop ps (cleaned_patches @ [patch]) (insert u seen_urls)
         else clean_patches_loop ps cleaned_patches seen_urls)"

definition clean_vulnerability :: "Vulnerability \<Rightarrow> Vulnerability" where
  "clean_vulnerability vuln =
     vuln\<lparr> description := clean_description (description vuln),
           references := clean_references (references vuln),
           affected_packages := map clean_package (affected_packages vuln),
           patches := clean_patches_loop (patches vuln) [] {},
           vuln_notes := map strip (filter (\<lambda>note. strip note \<noteq> []) (vuln_notes vuln)) \<rparr>"

section \<open>Merge engine (Vulnerability.merge, CleanerService.merge_vulnerabilities)\<close>

text \<open>The exceptions the modelled code can raise.\<close>

datatype error = ValueError | KeyError | IndexError | TypeError

text \<open>\<open>d[k]\<close>: a missing key raises \<open>KeyError\<close>.\<close>

definition dict_index :: "(string \<times> 'a) list \<Rightarrow> string \<Rightarrow> error + 'a" where
  "dict_index d k = (case map_of d k of None \<Rightarrow> Inl KeyError | Some v \<Rightarrow> Inr v)"

text \<open>\<open>d.update(e)\<close>: a key of \<open>e\<close> overwrites in place or is appended.\<close>

fun dict_set :: "string \<Rightarrow> 'a \<Rightarrow> (string \<times> 'a) list \<Rightarrow> (string \<times> 'a) list" where
  "dict_set k v [] = [(k, v)]"
| "dict_set k v (p # ps) = (if fst p = k then (k, v) # ps else p # dict_set k v ps)"

definition dict_update :: "(string \<times> 'a) list \<Rightarrow> (string \<times> 'a) list \<Rightarrow> (string \<times> 'a) list" where
  "dict_update d e = fold (\<lambda>(k, v) acc. dict_set k v acc) e d"

text \<open>
  The reference loop of \<open>merge\<close>: \<open>existing_refs\<close> grows with every reference appended.
\<close>

fun merge_references_loop ::
  "Reference list \<Rightarrow> Reference list \<Rightarrow> string set \<Rightarrow> Reference list" where
  "merge_references_loop [] refs existing_refs = refs"
| "merge_references_loop (other_ref # rest) refs existing_refs =
     (if url other_ref \<notin> existing_refs
      then merge_references_loop rest (refs @ [other_ref]) (insert (url other_ref) existing_refs)
      else merge_references_loop rest refs existing_refs)"

text \<open>
  The set comprehension \<open>{patch['url'] for patch in self.patches}\<close> and the patch loop:
  both index the key \<open>'url'\<close>, and \<open>existing_patches\<close> is not extended in the loop.
\<close>

fun patch_urls :: "(string \<times> string) list list \<Rightarrow> error + string set" where
  "patch_urls [] = Inr {}"
| "patch_urls (patch # ps) =
     (case dict_index patch ''url'' of
        Inl e \<Rightarrow> Inl e
      | Inr u \<Rightarrow> (case patch_urls ps of Inl e \<Rightarrow> Inl e | Inr us \<Rightarrow> Inr (insert u us)))"

fun merge_patches_loop ::
  "(string \<times> string) list list \<Rightarrow> (string \<times> string) list list \<Rightarrow> string set
     \<Rightarrow> error + (string \<times> string) list list" where
  "merge_patches_loop [] ps existing_patches = Inr ps"
| "merge_patches_loop (other_patch # rest) ps existing_patches =
     (case dict_index other_patch ''url'' of
        Inl e \<Rightarrow> Inl e
      | Inr u \<Rightarrow>
          if u \<notin> existing_patches
          then merge_patches_loop rest (ps @ [other_patch]) existing_patches
          else merge_patches_loop rest ps existing_patches)"

definition merge_text :: "string option \<Rightarrow> string option \<Rightarrow> string option" where
  "merge_text mine theirs = (if truthy theirs \<and> \<not> truthy mine then theirs else mine)"

definition merge_last_modified :: "datetime option \<Rightarrow> datetime option \<Rightarrow> datetime option" where
  "merge_last_modified mine theirs =
     (case theirs of
        None \<Rightarrow> mine
      | Some t \<Rightarrow> (case mine of None \<Rightarrow> Some t
                              | Some m \<Rightarrow> if t > m then Some t else Some m))"

definition merge_cvss :: "CVSSMetrics option \<Rightarrow> CVSSMetrics option \<Rightarrow> CVSSMetrics option" where
  "merge_cvss mine theirs = (if theirs \<noteq> None \<and> mine = None then theirs else mine)"

definition merge :: "Vulnerability \<Rightarrow> Vulnerability \<Rightarrow> error + Vulnerability" where
  "merge self other =
     (if vuln_id self \<noteq> vuln_id other then Inl ValueError
      else
        case patch_urls (patches self) of
          Inl e \<Rightarrow> Inl e
        | Inr existing_patches \<Rightarrow>
            (case merge_patches_loop (patches other) (patches self) existing_patches of
               Inl e \<Rightarrow> Inl e
             | Inr new_patches \<Rightarrow>
                 Inr (self\<lparr>
                   title := merge_text (title self) (title other),
                   description := merge_text (description self) (description other),
                   last_modified_date :=
                     merge_last_modified (last_modified_date self) (last_modified_date other),
                   cvss_v3 := merge_cvss (cvss_v3 self) (cvss_v3 other),
                   cvss_v2 := merge_cvss (cvss_v2 self) (cvss_v2 other),
                   affected_packages := affected_packages self @
                     filter (\<lambda>other_pkg. name other_pkg \<notin> name ` set (affected_packages self))
                       (affected_packages other),
                   references := merge_references_loop (references other) (references self)
                     (url ` set (references self)),
                   patches := new_patches,
                   vuln_notes := vuln_notes self @
                     filter (\<lambda>note. note \<notin> set (vuln_notes self)) (vuln_notes other),
                   raw_data := dict_update (raw_data self) (raw_data other)\<rparr>)))"

fun merge_all :: "Vulnerability \<Rightarrow> Vulnerability list \<Rightarrow> error + Vulnerability" where
  "merge_all base [] = Inr base"
| "merge_all base (vuln # rest) =
     (case merge base vuln of Inl e \<Rightarrow> Inl e | Inr base' \<Rightarrow> merge_all base' rest)"

definition merge_vulnerabilities :: "Vulnerability list \<Rightarrow> error + Vulnerability" where
  "merge_vulnerabilities vulns =
     (case vulns of [] \<Rightarrow> Inl ValueError | base # rest \<Rightarrow> merge_all base rest)"

section \<open>Risk scorer (AnalyzerService.assess_risk)\<close>

text \<open>
  \<open>round(x, 2)\<close> on rationals: to the nearest hundredth, a tie going to the even one.
\<close>

definition round_half_even :: "rat \<Rightarrow> int" where
  "round_half_even q =
     (let f = \<lfloor>q\<rfloor>; d = q - of_int f
      in if d < 1 / 2 then f else if 1 / 2 < d then f + 1 else if even f then f else f + 1)"

definition round2 :: "rat \<Rightarrow> rat" where
  "round2 x = of_int (round_half_even (x * 100)) / 100"

record risk_assessment =
  risk_level :: string
  risk_score :: rat
  max_cvss_score :: "rat option"
  active_vulnerabilities :: nat
  fixed_vulnerabilities :: nat
  latest_vulnerability :: "string option"
  recommendation :: string

text \<open>The local variables of the scoring loop.\<close>

record risk_state =
  total_score :: rat
  max_score :: rat
  active_count :: nat
  fixed_count :: nat
  latest_vuln :: "Vulnerability option"

definition is_affected :: "Package \<Rightarrow> string \<Rightarrow> bool" where
  "is_affected pkg ver = (ver \<in> set (affected_versions pkg))"

definition vuln_score :: "Vulnerability \<Rightarrow> rat" where
  "vuln_score vuln =
     (case cvss_v3 vuln of
        Some m \<Rightarrow> base_score m
      | None \<Rightarrow> (case cvss_v2 vuln of Some m \<Rightarrow> base_score m | None \<Rightarrow> 0))"

definition newer_than :: "Vulnerability \<Rightarrow> Vulnerability \<Rightarrow> bool" where
  "newer_than vuln latest =
     (case (published_date vuln, published_date latest) of
        (Some d, Some l) \<Rightarrow> d > l
      | _ \<Rightarrow> False)"

definition risk_step :: "string \<Rightarrow> Vulnerability \<Rightarrow> risk_state \<Rightarrow> risk_state" where
  "risk_step package_name vuln st =
     (let latest = (case latest_vuln st of
                      None \<Rightarrow> Some vuln
                    | Some l \<Rightarrow> if newer_than vuln l then Some vuln else Some l);
          is_fixed = (\<exists>pkg \<in> set (affected_packages vuln).
                        name pkg = package_name \<and> fixed_versions pkg \<noteq> []);
          score = vuln_score vuln
      in \<lparr> total_score = total_score st + score,
           max_score = max (max_score st) score,
           active_count = (if is_fixed then active_count st else active_count st + 1),
           fixed_count = (if is_fixed then fixed_count st + 1 else fixed_count st),
           latest_vuln = latest \<rparr>)"

definition level_of :: "rat \<Rightarrow> string" where
  "level_of score =
     (if score \<ge> 7 then ''high''
      else if score \<ge> 4 then ''medium''
      else if score > 0 then ''low''
      else ''unknown'')"

definition recommendation_of :: "string \<Rightarrow> string" where
  "recommendation_of level =
     (if level = ''high'' then
        ''Immediate action recommended. Update to the latest version or implement security controls.''
      else if level = ''medium'' then
        ''Update recommended. Review and patch vulnerabilities based on your security policy.''
      else if level = ''low'' then
        ''Monitor for updates. Update during your regular maintenance window.''
      else
        ''No known vulnerabilities. Continue monitoring for new security advisories.'')"

text \<open>
  \<open>assess_risk\<close>; its first argument is what \<open>db.get_affected_packages(package_name)\<close>
  returned.
\<close>

definition assess_risk :: "Vulnerability list \<Rightarrow> string \<Rightarrow> string option \<Rightarrow> risk_assessment" where
  "assess_risk db_vulns package_name ver =
     (if db_vulns = [] then
        \<lparr> risk_level = ''unknown'', risk_score = 0, max_cvss_score = None,
          active_vulnerabilities = 0, fixed_vulnerabilities = 0,
          latest_vulnerability = None, recommendation = ''No known vulnerabilities'' \<rparr>
      else
        let vulns =
              (if truthy ver then
                 concat (map (\<lambda>vuln. map (\<lambda>pkg. vuln)
                           (filter (\<lambda>pkg. name pkg = package_name \<and> is_affected pkg (the ver))
                              (affected_packages vuln))) db_vulns)
               else db_vulns);
            st = fold (risk_step package_name) vulns
                   \<lparr> total_score = 0, max_score = 0, active_count = 0, fixed_count = 0,
                     latest_vuln = None \<rparr>;
            score = (if vulns \<noteq> [] then total_score st / of_nat (length vulns) else 0);
            level = level_of score
        in \<lparr> risk_level = level, risk_score = round2 score,
             max_cvss_score = Some (round2 (max_score st)),
             active_vulnerabilities = active_count st,
             fixed_vulnerabilities = fixed_count st,
             latest_vulnerability = map_option vuln_id (latest_vuln st),
             recommendation = recommendation_of level \<rparr>)"

section \<open>Correlation analyzer (AnalyzerService.analyze_correlations)\<close>

subsection \<open>Similarity clustering\<close>

definition similar_indices :: "(nat \<Rightarrow> nat \<Rightarrow> rat) \<Rightarrow> rat \<Rightarrow> nat \<Rightarrow> nat \<Rightarrow> nat list" where
  "similar_indices similarity_matrix min_similarity n i =
     filter (\<lambda>j. i \<noteq> j \<and> similarity_matrix i j \<ge> min_similarity) [0..<n]"

fun groups_loop ::
  "(nat \<Rightarrow> nat \<Rightarrow> rat) \<Rightarrow> rat \<Rightarrow> nat \<Rightarrow> nat list \<Rightarrow> nat list list \<Rightarrow> nat set
     \<Rightarrow> nat list list" where
  "groups_loop sm thr n [] similar_groups used_indices = similar_groups"
| "groups_loop sm thr n (i # rest) similar_groups used_indices =
     (if i \<in> used_indices then groups_loop sm thr n rest similar_groups used_indices
      else
        let similar = similar_indices sm thr n i
        in if similar \<noteq> []
           then groups_loop sm thr n rest (similar_groups @ [i # similar])
                  (insert i used_indices \<union> set similar)
           else groups_loop sm thr n rest similar_groups used_indices)"

definition descriptions_of :: "Vulnerability list \<Rightarrow> string list" where
  "descriptions_of vulns =
     map (\<lambda>v. the (description v))
       (filter (\<lambda>v. truthy (description v) \<and> length (split_ws (the (description v))) > 3) vulns)"

text \<open>
  The vectorizer and the cosine similarity belong to a library; \<open>similarity\<close> stands for
  \<open>cosine_similarity(vectorizer.fit_transform(descriptions))\<close> and is \<open>None\<close> when that
  raises. The groups hold positions in \<open>descriptions\<close>, and the code reads the records
  at these positions from \<open>vulns\<close>, which is at least as long.
\<close>

definition similar_groups_of ::
  "(string list \<Rightarrow> (nat \<Rightarrow> nat \<Rightarrow> rat) option) \<Rightarrow> rat \<Rightarrow> Vulnerability list \<Rightarrow> string list list" where
  "similar_groups_of similarity min_similarity vulns =
     (let descriptions = descriptions_of vulns
      in case similarity descriptions of
           None \<Rightarrow> []
         | Some sm \<Rightarrow>
             map (map (\<lambda>k. vuln_id (vulns ! k)))
               (groups_loop sm min_similarity (length descriptions)
                  [0..<length descriptions] [] {}))"

subsection \<open>Relationship graph\<close>

text \<open>
  An undirected \<open>networkx.Graph\<close>: the nodes in insertion order, each with its \<open>type\<close>
  attribute (absent for a node that only \<open>add_edge\<close> created) and its neighbours in
  insertion order.
\<close>

type_synonym nxgraph = "(string \<times> string option \<times> string list) list"

definition has_node :: "nxgraph \<Rightarrow> string \<Rightarrow> bool" where
  "has_node g n = (n \<in> fst ` set g)"

definition add_node :: "nxgraph \<Rightarrow> string \<Rightarrow> string \<Rightarrow> nxgraph" where
  "add_node g n t =
     (if has_node g n then map (\<lambda>(m, a, ns). if m = n then (m, Some t, ns) else (m, a, ns)) g
      else g @ [(n, Some t, [])])"

definition add_neighbour :: "nxgraph \<Rightarrow> string \<Rightarrow> string \<Rightarrow> nxgraph" where
  "add_neighbour g u v =
     map (\<lambda>(m, a, ns). if m = u then (m, a, if v \<in> set ns then ns else ns @ [v])
                         else (m, a, ns)) g"

definition add_edge :: "nxgraph \<Rightarrow> string \<Rightarrow> string \<Rightarrow> nxgraph" where
  "add_edge g u v =
     (let g1 = (if has_node g u then g else g @ [(u, None, [])]);
          g2 = (if has_node g1 v then g1 else g1 @ [(v, None, [])])
      in add_neighbour (add_neighbour g2 u v) v u)"

text \<open>\<open>graph.edges\<close>: every edge once, from the endpoint that comes first.\<close>

fun edges_from :: "nxgraph \<Rightarrow> string set \<Rightarrow> (string \<times> string) list" where
  "edges_from [] seen = []"
| "edges_from ((n, a, nbrs) # rest) seen =
     map (\<lambda>nbr. (n, nbr)) (filter (\<lambda>nbr. nbr \<notin> seen) nbrs) @ edges_from rest (insert n seen)"

definition graph_edges :: "nxgraph \<Rightarrow> (string \<times> string) list" where
  "graph_edges g = edges_from g {}"

text \<open>\<open>graph.nodes[node]['type']\<close> raises \<open>KeyError\<close> on a node without the attribute.\<close>

fun graph_nodes :: "nxgraph \<Rightarrow> error + (string \<times> string) list" where
  "graph_nodes [] = Inr []"
| "graph_nodes ((n, a, nbrs) # rest) =
     (case a of
        None \<Rightarrow> Inl KeyError
      | Some t \<Rightarrow> (case graph_nodes rest of Inl e \<Rightarrow> Inl e | Inr ns \<Rightarrow> Inr ((n, t) # ns)))"

definition add_package :: "Package \<Rightarrow> nxgraph \<Rightarrow> nxgraph" where
  "add_package pkg g =
     (let g1 = (if \<not> has_node g (name pkg) then add_node g (name pkg) ''package'' else g);
          g2 = (if truthy (ecosystem pkg) \<and> \<not> has_node g1 (the (ecosystem pkg))
                then add_edge (add_node g1 (the (ecosystem pkg)) ''ecosystem'')
                       (name pkg) (the (ecosystem pkg))
                else g1);
          g3 = (if truthy (platform pkg) \<and> \<not> has_node g2 (the (platform pkg))
                then add_edge (add_node g2 (the (platform pkg)) ''platform'')
                       (name pkg) (the (platform pkg))
                else g2)
      in g3)"

definition build_graph :: "Vulnerability list \<Rightarrow> nxgraph" where
  "build_graph vulns = fold (\<lambda>vuln g. fold add_package (affected_packages vuln) g) vulns []"

record correlations =
  similar_groups :: "string list list"
  graph_node_list :: "(string \<times> string) list"
  graph_edge_list :: "(string \<times> string) list"

text \<open>
  \<open>analyze_correlations\<close>; \<open>vulns\<close> is what \<open>db.get_vulnerabilities\<close> returned. With no
  usable description the function returns before it builds the graph.
\<close>

definition analyze_correlations ::
  "(string list \<Rightarrow> (nat \<Rightarrow> nat \<Rightarrow> rat) option) \<Rightarrow> rat \<Rightarrow> Vulnerability list
     \<Rightarrow> error + correlations" where
  "analyze_correlations similarity min_similarity vulns =
     (if descriptions_of vulns = [] then
        Inr \<lparr> similar_groups = [], graph_node_list = [], graph_edge_list = [] \<rparr>
      else
        let groups = similar_groups_of similarity min_similarity vulns;
            graph = build_graph vulns
        in case graph_nodes graph of
             Inl e \<Rightarrow> Inl e
           | Inr ns \<Rightarrow>
               Inr \<lparr> similar_groups = groups, graph_node_list = ns,
                     graph_edge_list = graph_edges graph \<rparr>)"

section \<open>Source normalizer for NVD\<close>

subsection \<open>The raw record\<close>

text \<open>
  A raw NVD record is a JSON object; the model gives it the types the code reads it at,
  and a key that may be missing is an \<open>option\<close>.
\<close>

record cpe_match =
  cpe23Uri :: "string option"
  vulnerable :: "bool option"
  versionStartIncluding :: "string option"
  versionStartExcluding :: "string option"
  versionEndIncluding :: "string option"
  versionEndExcluding :: "string option"

text \<open>The dataclass \<open>CPEMatch\<close> with its defaults, for a vulnerable match.\<close>

definition CPEMatch_init :: "string \<Rightarrow> cpe_match" where
  "CPEMatch_init c =
     \<lparr> cpe23Uri = Some c, vulnerable = Some True, versionStartIncluding = None,
       versionStartExcluding = None, versionEndIncluding = None, versionEndExcluding = None \<rparr>"

text \<open>
  A configuration node; \<open>node.get('cpeMatch', [])\<close> and \<open>node.get('children', [])\<close>
  read a missing key as the empty list, which is how the model writes it.
\<close>

datatype config_node =
  ConfigNode (cpeMatch: "cpe_match list") (children: "config_node list")

record configuration =
  nodes :: "config_node list option"

record lang_value =
  lang :: "string option"
  lv_value :: "string option"

record weakness =
  weakness_description :: "lang_value list option"

record cvss_data =
  vectorString :: "string option"
  baseScore :: "rat option"

record cvss_metric =
  cvssData :: "cvss_data option"

record raw_metrics =
  cvssMetricV31 :: "cvss_metric list option"
  other_metrics :: "(string \<times> json) list"

record raw_reference =
  raw_url :: "string option"
  raw_source :: "string option"
  raw_tags :: "string list option"

record cve_item =
  raw_id :: "string option"
  raw_published :: "string option"
  raw_lastModified :: "string option"
  raw_vulnStatus :: "string option"
  raw_descriptions :: "lang_value list option"
  raw_metrics :: "raw_metrics option"
  raw_weaknesses :: "weakness list option"
  raw_references :: "raw_reference list option"
  raw_configurations :: "configuration list option"

record raw_record =
  cve :: "cve_item option"

text \<open>\<open>data.get('cve', {})\<close>: a record without the key reads as the empty object.\<close>

definition empty_cve_item :: cve_item where
  "empty_cve_item =
     \<lparr> raw_id = None, raw_published = None, raw_lastModified = None, raw_vulnStatus = None,
       raw_descriptions = None, raw_metrics = None, raw_weaknesses = None,
       raw_references = None, raw_configurations = None \<rparr>"

definition get_or :: "'a option \<Rightarrow> 'a \<Rightarrow> 'a" where
  "get_or x dflt = (case x of None \<Rightarrow> dflt | Some v \<Rightarrow> v)"

subsection \<open>NVDData.from\_json (source/model/NVD\_OBJ.py)\<close>

record reference_dict =
  rd_url :: string
  rd_source :: string
  rd_tags :: "string list"

record NVDData_obj =
  cve_id :: string
  obj_description :: string
  obj_published_date :: string
  obj_last_modified_date :: string
  cvss_v3_vector :: string
  cvss_v3_base_score :: rat
  cwe_id :: "string option"
  obj_references :: "reference_dict list"
  obj_configurations :: "configuration list"

text \<open>\<open>next((desc.get('value', '') for desc in ds if desc.get('lang') == 'en'), '')\<close>.\<close>

fun first_english :: "lang_value list \<Rightarrow> string" where
  "first_english [] = []"
| "first_english (desc # ds) =
     (if lang desc = Some ''en'' then get_or (lv_value desc) [] else first_english ds)"

text \<open>The first English weakness text that starts with \<open>CWE-\<close>, up to its first colon.\<close>

fun first_cwe :: "lang_value list \<Rightarrow> string option" where
  "first_cwe [] = None"
| "first_cwe (desc # ds) =
     (if lang desc = Some ''en'' \<and> startswith (get_or (lv_value desc) []) ''CWE-''
      then Some (strip (hd (split_on CHR '':'' (get_or (lv_value desc) []))))
      else first_cwe ds)"

definition from_json :: "raw_record \<Rightarrow> error + NVDData_obj" where
  "from_json data =
     (let cve_item = get_or (cve data) empty_cve_item;
          description = first_english (get_or (raw_descriptions cve_item) []);
          v31 = (case raw_metrics cve_item of
                   None \<Rightarrow> [\<lparr>cvssData = None\<rparr>]
                 | Some m \<Rightarrow> get_or (cvssMetricV31 m) [\<lparr>cvssData = None\<rparr>])
      in case v31 of
           [] \<Rightarrow> Inl IndexError
         | metrics # _ \<Rightarrow>
             let cvss = get_or (cvssData metrics) \<lparr>vectorString = None, baseScore = None\<rparr>;
                 cwe = first_cwe (concat (map (\<lambda>w. get_or (weakness_description w) [])
                                            (get_or (raw_weaknesses cve_item) [])));
                 refs = map (\<lambda>ref. \<lparr> rd_url = get_or (raw_url ref) [],
                                      rd_source = get_or (raw_source ref) [],
                                      rd_tags = get_or (raw_tags ref) [] \<rparr>)
                          (get_or (raw_references cve_item) [])
             in Inr \<lparr> cve_id = get_or (raw_id cve_item) [],
                      obj_description = description,
                      obj_published_date = get_or (raw_published cve_item) [],
                      obj_last_modified_date = get_or (raw_lastModified cve_item) [],
                      cvss_v3_vector = get_or (vectorString cvss) [],
                      cvss_v3_base_score = get_or (baseScore cvss) 0,
                      cwe_id = cwe,
                      obj_references = refs,
                      obj_configurations = get_or (raw_configurations cve_item) [] \<rparr>)"

subsection \<open>NVDData.from\_dict (src/models/nvd.py)\<close>

record NVDData =
  nvd_id :: "string option"
  published :: datetime
  lastModified :: datetime
  vulnStatus :: "string option"
  descriptions :: "lang_value list"
  metrics :: "raw_metrics option"
  nvd_references :: "raw_reference list"
  configurations :: "configuration list"

text \<open>
  \<open>datetime.fromisoformat\<close> is the standard library's parser, a parameter here: it
  raises \<open>TypeError\<close> on \<open>None\<close> and \<open>ValueError\<close> on a string it cannot read.
\<close>

definition parse_date :: "(string \<Rightarrow> datetime option) \<Rightarrow> string option \<Rightarrow> error + datetime" where
  "parse_date fromisoformat s =
     (case s of
        None \<Rightarrow> Inl TypeError
      | Some t \<Rightarrow> (case fromisoformat t of None \<Rightarrow> Inl ValueError | Some d \<Rightarrow> Inr d))"

definition from_dict :: "(string \<Rightarrow> datetime option) \<Rightarrow> raw_record \<Rightarrow> error + NVDData" where
  "from_dict fromisoformat data =
     (let item = get_or (cve data) empty_cve_item
      in case parse_date fromisoformat (raw_published item) of
           Inl e \<Rightarrow> Inl e
         | Inr p \<Rightarrow>
             (case parse_date fromisoformat (raw_lastModified item) of
                Inl e \<Rightarrow> Inl e
              | Inr m \<Rightarrow>
                  Inr \<lparr> nvd_id = raw_id item, published = p, lastModified = m,
                        vulnStatus = raw_vulnStatus item,
                        descriptions = get_or (raw_descriptions item) [],
                        metrics = raw_metrics item,
                        nvd_references = get_or (raw_references item) [],
                        configurations = get_or (raw_configurations item) [] \<rparr>))"

subsection \<open>NVDData.\_extract\_affected\_packages (src/models/nvd.py)\<close>

definition new_package :: "string \<Rightarrow> string \<Rightarrow> Package" where
  "new_package pkg_name part =
     \<lparr> name = pkg_name, ecosystem = Some ''cpe'', platform = Some part, versions = [],
       affected_versions = [], fixed_versions = [] \<rparr>"

definition new_version :: "string \<Rightarrow> string \<Rightarrow> Version" where
  "new_version v st =
     \<lparr> version = v, release = None, architecture = None, ver_status = st,
       repositories = [] \<rparr>"

text \<open>\<open>pkg.versions.append(v)\<close> on the first package of the list with the given name.\<close>

fun append_version :: "string \<Rightarrow> Version \<Rightarrow> Package list \<Rightarrow> Package list" where
  "append_version pkg_name v [] = []"
| "append_version pkg_name v (p # ps) =
     (if name p = pkg_name then p\<lparr>versions := versions p @ [v]\<rparr> # ps
      else p # append_version pkg_name v ps)"

text \<open>One pass of the loop body over a \<open>cpeMatch\<close> entry.\<close>

definition process_cpe_match :: "cpe_match \<Rightarrow> Package list \<Rightarrow> Package list" where
  "process_cpe_match m packages =
     (let cpe = get_or (cpe23Uri m) []
      in if cpe = [] then packages
         else
           let parts = split_on CHR '':'' cpe
           in if length parts < 5 then packages
              else
                let vendor = parts ! 3;
                    product = parts ! 4;
                    ver = (if length parts > 5 then parts ! 5 else ''*'');
                    pkg_name = vendor @ ''/'' @ product;
                    packages1 = (if pkg_name \<in> name ` set packages then packages
                                 else packages @ [new_package pkg_name (parts ! 2)])
                in if ver \<noteq> ''*''
                   then append_version pkg_name
                          (new_version ver
                             (if get_or (vulnerable m) True then ''affected'' else ''fixed''))
                          packages1
                   else packages1)"

fun process_node :: "config_node \<Rightarrow> Package list \<Rightarrow> Package list"
  and process_nodes :: "config_node list \<Rightarrow> Package list \<Rightarrow> Package list" where
  "process_node (ConfigNode ms cs) packages =
     process_nodes cs (fold process_cpe_match ms packages)"
| "process_nodes [] packages = packages"
| "process_nodes (child # rest) packages = process_nodes rest (process_node child packages)"

definition extract_affected_packages :: "configuration list \<Rightarrow> Package list" where
  "extract_affected_packages configs =
     fold (\<lambda>config packages. process_nodes (get_or (nodes config) []) packages) configs []"

section \<open>Patch classification (Patch.is\_likely\_patch, source/model/entities.py)\<close>

definition patch_keywords :: "string list" where
  "patch_keywords = [''patch'', ''fix'', ''update'', ''resolve'', ''mitigate'']"

definition is_likely_patch :: "string \<Rightarrow> string list \<Rightarrow> bool" where
  "is_likely_patch u ts =
     (let url_lower = lower u
      in list_ex (\<lambda>keyword. str_contains url_lower keyword) patch_keywords
         \<or> ''Patch'' \<in> set ts)"

section \<open>Results: cleaning pipeline\<close>

text \<open>
  C10. \<open>clean_vulnerability\<close> assigns only the description, the references, the affected
  packages, the patches and the notes: the identifier, source, title, severity, both CVSS
  objects, the three dates, status, scope, the affected configurations and the raw data
  of the result are those of the input.
\<close>

theorem clean_vulnerability_frame:
  "vuln_id (clean_vulnerability v) = vuln_id v
   \<and> source (clean_vulnerability v) = source v
   \<and> title (clean_vulnerability v) = title v
   \<and> severity (clean_vulnerability v) = severity v
   \<and> cvss_v2 (clean_vulnerability v) = cvss_v2 v
   \<and> cvss_v3 (clean_vulnerability v) = cvss_v3 v
   \<and> published_date (clean_vulnerability v) = published_date v
   \<and> last_modified_date (clean_vulnerability v) = last_modified_date v
   \<and> discovered_date (clean_vulnerability v) = discovered_date v
   \<and> status (clean_vulnerability v) = status v
   \<and> scope (clean_vulnerability v) = scope v
   \<and> affected_configurations (clean_vulnerability v) = affected_configurations v
   \<and> raw_data (clean_vulnerability v) = raw_data v"
  by (simp add: clean_vulnerability_def)

text \<open>
  C5. Reference cleaning on the list \<open>["example.com/a", "http://example.com/a"]\<close>. The
  first URL has no scheme and gets \<open>https://\<close>; the second keeps its \<open>http://\<close>, so the
  two normalized URLs differ and both references are kept. The claim expects exactly one
  reference with URL \<open>https://example.com/a\<close>; the usage notes at the end of
  \<open>cleaner.py\<close> say of the same pair that it is deduplicated.
\<close>

theorem clean_references_scheme_pair:
  "clean_references [Reference_init ''example.com/a'', Reference_init ''http://example.com/a'']
   = [Reference_init ''https://example.com/a'', Reference_init ''http://example.com/a'']"
  by code_simp

text \<open>
  C6. Cleaning twice is not cleaning once. The description \<open>a\<close>, space, U+0001, space,
  \<open>b\<close> has its whitespace collapsed before the control character is dropped, so one
  pass leaves two adjacent spaces and a second pass removes one of them.
\<close>

theorem clean_vulnerability_second_pass:
  "description (clean_vulnerability
       ((Vulnerability_init ''CVE-2024-0001'' ''NVD'')
          \<lparr>description := Some [CHR ''a'', CHR '' '', CHR 0x01, CHR '' '', CHR ''b'']\<rparr>))
     = Some ''a  b''
   \<and> description (clean_vulnerability (clean_vulnerability
       ((Vulnerability_init ''CVE-2024-0001'' ''NVD'')
          \<lparr>description := Some [CHR ''a'', CHR '' '', CHR 0x01, CHR '' '', CHR ''b'']\<rparr>)))
     = Some ''a b''"
  by code_simp

section \<open>Results: risk scorer\<close>

text \<open>
  C1. Three vulnerabilities of one package with CVSS v3 scores 9.0, 5.0 and no score.
  \<open>assess_risk\<close> adds 0 for the unscored record and divides by the number of all
  records, 14 / 3, so the score is 4.67 and the level \<open>medium\<close>; the claim expects the
  mean over the scored records only, 7.0 and \<open>high\<close>.
\<close>

theorem assess_risk_unscored_counts:
  "risk_score (assess_risk
     [(Vulnerability_init ''CVE-2024-0001'' ''NVD'')
        \<lparr>cvss_v3 := Some (CVSSMetrics_init ''3.1'' ''AV:N'' 9),
         affected_packages := [Package_init ''lodash'']\<rparr>,
      (Vulnerability_init ''CVE-2024-0002'' ''NVD'')
        \<lparr>cvss_v3 := Some (CVSSMetrics_init ''3.1'' ''AV:L'' 5),
         affected_packages := [Package_init ''lodash'']\<rparr>,
      (Vulnerability_init ''CVE-2024-0003'' ''NVD'')
        \<lparr>affected_packages := [Package_init ''lodash'']\<rparr>]
     ''lodash'' None) = 467 / 100
   \<and> risk_level (assess_risk
     [(Vulnerability_init ''CVE-2024-0001'' ''NVD'')
        \<lparr>cvss_v3 := Some (CVSSMetrics_init ''3.1'' ''AV:N'' 9),
         affected_packages := [Package_init ''lodash'']\<rparr>,
      (Vulnerability_init ''CVE-2024-0002'' ''NVD'')
        \<lparr>cvss_v3 := Some (CVSSMetrics_init ''3.1'' ''AV:L'' 5),
         affected_packages := [Package_init ''lodash'']\<rparr>,
      (Vulnerability_init ''CVE-2024-0003'' ''NVD'')
        \<lparr>affected_packages := [Package_init ''lodash'']\<rparr>]
     ''lodash'' None) = ''medium''"
  by code_simp

section \<open>Results: correlation analyzer\<close>


text \<open>
  The inner loop does not consult \<open>used_indices\<close> either. With every description in the
  corpus, the second record similar to both others and these two not similar to each
  other, the second record is put into the cluster of the first and then again into a
  cluster around the third.
\<close>

lemma similar_groups_reuse_assigned:
  "map_sum id similar_groups (analyze_correlations
     (\<lambda>ds. Some (\<lambda>i j. if i = j then 1 else if i = 1 \<or> j = 1 then 9 / 10 else 0)) (8 / 10)
     [(Vulnerability_init ''CVE-A'' ''NVD'')
        \<lparr>description := Some ''Heap overflow in the image parser''\<rparr>,
      (Vulnerability_init ''CVE-B'' ''NVD'')
        \<lparr>description := Some ''Heap overflow in the font parser''\<rparr>,
      (Vulnerability_init ''CVE-C'' ''NVD'')
        \<lparr>description := Some ''Stack overflow in the font parser''\<rparr>])
   = Inr [[''CVE-A'', ''CVE-B''], [''CVE-C'', ''CVE-B'']]"
  by code_simp

text \<open>
  C4. One vulnerability with two packages of the ecosystem \<open>npm\<close>. The edge to the
  ecosystem is added only together with the ecosystem node, so the second package,
  which finds the node present, gets no edge: the graph has the three nodes and the
  single edge from the first package, where the claim expects an edge from each package
  to its ecosystem.
\<close>

theorem package_graph_second_package_unlinked:
  "analyze_correlations (\<lambda>ds. Some (\<lambda>i j. if i = j then 1 else 0)) (8 / 10)
     [(Vulnerability_init ''CVE-A'' ''NVD'')
        \<lparr>description := Some ''Prototype pollution in the merge function'',
         affected_packages := [(Package_init ''lodash'')\<lparr>ecosystem := Some ''npm''\<rparr>,
                               (Package_init ''express'')\<lparr>ecosystem := Some ''npm''\<rparr>]\<rparr>]
   = Inr \<lparr> similar_groups = [],
           graph_node_list =
             [(''lodash'', ''package''), (''npm'', ''ecosystem''), (''express'', ''package'')],
           graph_edge_list = [(''lodash'', ''npm'')] \<rparr>"
  by code_simp

section \<open>Results: merge engine\<close>








section \<open>Results: source normalizer\<close>






text \<open>
  A whole record: a malformed identifier, two versions of one product (one of them in a
  child node) and a wildcard identifier of a second product.
\<close>

lemma extract_affected_packages_record: "extract_affected_packages
     [\<lparr>nodes = Some [ConfigNode [CPEMatch_init ''cpe:2.3:a:acme'', CPEMatch_init ''cpe:2.3:a:acme:widget:1.2:*:*:*:*:*:*:*''] [ConfigNode [CPEMatch_init ''cpe:2.3:o:acme:os:*:*:*:*:*:*:*:*'', CPEMatch_init ''cpe:2.3:a:acme:widget:1.3:*:*:*:*:*:*:*''] []]]\<rparr>]
  = [(new_package ''acme/widget'' ''a'')\<lparr>versions := [new_version ''1.2'' ''affected'', new_version ''1.3'' ''affected'']\<rparr>, new_package ''acme/os'' ''o'']"
  by code_simp

text \<open>
  C8, as the code has it. A raw record without an identifier is not rejected. \<open>from_json\<close>
  returns a record whose \<open>cve_id\<close> is the empty string, and fails only with
  \<open>IndexError\<close>, when \<open>cvssMetricV31\<close> is present and empty. \<open>from_dict\<close> returns a
  record whose \<open>id\<close> is absent, and fails only on a date: \<open>TypeError\<close> when one is
  missing, \<open>ValueError\<close> when one cannot be parsed.
\<close>

theorem missing_id_accepted:
  assumes "raw_id (get_or (cve data) empty_cve_item) = None"
  shows "((\<exists>r. from_json data = Inr r \<and> cve_id r = [])
          \<or> (from_json data = Inl IndexError
              \<and> (\<exists>m. raw_metrics (get_or (cve data) empty_cve_item) = Some m
                       \<and> cvssMetricV31 m = Some [])))
       \<and> ((\<exists>r. from_dict fromisoformat data = Inr r \<and> nvd_id r = None)
          \<or> (from_dict fromisoformat data = Inl TypeError
              \<and> (raw_published (get_or (cve data) empty_cve_item) = None
                  \<or> raw_lastModified (get_or (cve data) empty_cve_item) = None))
          \<or> (from_dict fromisoformat data = Inl ValueError
              \<and> (\<exists>s. (raw_published (get_or (cve data) empty_cve_item) = Some s
                        \<or> raw_lastModified (get_or (cve data) empty_cve_item) = Some s)
                       \<and> fromisoformat s = None)))"
proof -
  let ?item = "get_or (cve data) empty_cve_item"
  have j: "(\<exists>r. from_json data = Inr r \<and> cve_id r = [])
          \<or> (from_json data = Inl IndexError
              \<and> (\<exists>m. raw_metrics ?item = Some m \<and> cvssMetricV31 m = Some []))"
    using assms
    by (auto simp: from_json_def Let_def get_or_def split: option.splits list.splits)
  have d: "(\<exists>r. from_dict fromisoformat data = Inr r \<and> nvd_id r = None)
          \<or> (from_dict fromisoformat data = Inl TypeError
              \<and> (raw_published ?item = None \<or> raw_lastModified ?item = None))
          \<or> (from_dict fromisoformat data = Inl ValueError
              \<and> (\<exists>s. (raw_published ?item = Some s \<or> raw_lastModified ?item = Some s)
                       \<and> fromisoformat s = None))"
  proof (cases "raw_published ?item")
    case None
    then show ?thesis by (simp add: from_dict_def Let_def parse_date_def)
  next
    case (Some p)
    note P = Some
    show ?thesis
    proof (cases "fromisoformat p")
      case None
      with P show ?thesis by (auto simp: from_dict_def Let_def parse_date_def)
    next
      case (Some pd)
      note PD = Some
      show ?thesis
      proof (cases "raw_lastModified ?item")
        case None
        with P PD show ?thesis by (simp add: from_dict_def Let_def parse_date_def)
      next
        case (Some l)
        with P PD assms show ?thesis
          by (cases "fromisoformat l") (auto simp: from_dict_def Let_def parse_date_def)
      qed
    qed
  qed
  from j d show ?thesis by blast
qed

theorem missing_id_accepted_witness:
  "(\<exists>r. from_json
        \<lparr>cve = Some (empty_cve_item
          \<lparr>raw_published := Some ''2024-01-15T10:00:00.000'',
           raw_lastModified := Some ''2024-02-01T08:30:00.000'',
           raw_descriptions :=
             Some [\<lparr>lang = Some ''en'', lv_value = Some ''Buffer overflow in the parser''\<rparr>]\<rparr>)\<rparr> = Inr r \<and> cve_id r = [])
   \<and> (\<exists>r. from_dict (\<lambda>s. Some 0)
        \<lparr>cve = Some (empty_cve_item
          \<lparr>raw_published := Some ''2024-01-15T10:00:00.000'',
           raw_lastModified := Some ''2024-02-01T08:30:00.000'',
           raw_descriptions :=
             Some [\<lparr>lang = Some ''en'', lv_value = Some ''Buffer overflow in the parser''\<rparr>]\<rparr>)\<rparr> = Inr r \<and> nvd_id r = None)"
proof -
  let ?d = "\<lparr>cve = Some (empty_cve_item
          \<lparr>raw_published := Some ''2024-01-15T10:00:00.000'',
           raw_lastModified := Some ''2024-02-01T08:30:00.000'',
           raw_descriptions :=
             Some [\<lparr>lang = Some ''en'', lv_value = Some ''Buffer overflow in the parser''\<rparr>]\<rparr>)\<rparr>"
  have h: "raw_id (get_or (cve ?d) empty_cve_item) = None"
    by (simp add: get_or_def empty_cve_item_def)
  have j: "from_json ?d \<noteq> Inl IndexError"
    by (simp add: from_json_def get_or_def empty_cve_item_def)
  have d: "from_dict (\<lambda>s. Some 0) ?d \<noteq> Inl TypeError"
          "from_dict (\<lambda>s. Some 0) ?d \<noteq> Inl ValueError"
    by (simp_all add: from_dict_def parse_date_def get_or_def empty_cve_item_def)
  from missing_id_accepted[OF h, of "\<lambda>s. Some 0"] j d show ?thesis
    by blast
qed

text \<open>
  C8, as the claim states it, fails: for a record with dates and a description but no
  identifier both normalizers return a record, with the empty string and with no value
  as its identifier.
\<close>

theorem missing_id_record_returned:
  "map_sum id cve_id (from_json
        \<lparr>cve = Some (empty_cve_item
          \<lparr>raw_published := Some ''2024-01-15T10:00:00.000'',
           raw_lastModified := Some ''2024-02-01T08:30:00.000'',
           raw_descriptions :=
             Some [\<lparr>lang = Some ''en'', lv_value = Some ''Buffer overflow in the parser''\<rparr>]\<rparr>)\<rparr>) = Inr []
   \<and> map_sum id nvd_id (from_dict (\<lambda>s. Some 0)
        \<lparr>cve = Some (empty_cve_item
          \<lparr>raw_published := Some ''2024-01-15T10:00:00.000'',
           raw_lastModified := Some ''2024-02-01T08:30:00.000'',
           raw_descriptions :=
             Some [\<lparr>lang = Some ''en'', lv_value = Some ''Buffer overflow in the parser''\<rparr>]\<rparr>)\<rparr>) = Inr None"
  by code_simp

section \<open>Results: patch classification\<close>

lemma startswith_iff: "startswith s k \<longleftrightarrow> (\<exists>t. s = k @ t)"
  by (induction s k rule: startswith.induct) auto

lemma str_contains_iff: "str_contains s k \<longleftrightarrow> (\<exists>p t. s = p @ k @ t)"
proof (induction s)
  case Nil
  then show ?case by auto
next
  case (Cons c cs)
  show ?case
  proof
    assume "str_contains (c # cs) k"
    then consider "startswith (c # cs) k" | "str_contains cs k" by auto
    then show "\<exists>p t. c # cs = p @ k @ t"
    proof cases
      case 1
      then obtain t where "c # cs = k @ t" by (auto simp: startswith_iff)
      then have "c # cs = [] @ k @ t" by simp
      then show ?thesis by blast
    next
      case 2
      then obtain p t where "cs = p @ k @ t" using Cons.IH by auto
      then have "c # cs = (c # p) @ k @ t" by simp
      then show ?thesis by blast
    qed
  next
    assume "\<exists>p t. c # cs = p @ k @ t"
    then obtain p t where e: "c # cs = p @ k @ t" by blast
    show "str_contains (c # cs) k"
    proof (cases p)
      case Nil
      with e have "startswith (c # cs) k" by (auto simp: startswith_iff)
      then show ?thesis by simp
    next
      case (Cons a p')
      with e have "cs = p' @ k @ t" by simp
      then have "str_contains cs k" using Cons.IH by blast
      then show ?thesis by simp
    qed
  qed
qed

text \<open>
  C9, as the code has it. A reference is classified as a likely patch link exactly when
  its URL, in lower case, has one of the keywords \<open>patch\<close>, \<open>fix\<close>, \<open>update\<close>, \<open>resolve\<close>,
  \<open>mitigate\<close> as a substring, or its tag list has the tag \<open>Patch\<close> itself. The keywords
  are not looked for in the tags.
\<close>

theorem is_likely_patch_iff:
  "is_likely_patch u ts \<longleftrightarrow>
     (\<exists>k \<in> set patch_keywords. \<exists>p t. lower u = p @ k @ t) \<or> ''Patch'' \<in> set ts"
  by (simp add: is_likely_patch_def Let_def list_ex_iff str_contains_iff)

theorem is_likely_patch_iff_witness: "is_likely_patch ''https://example.org/Security-Update/42'' [''Vendor Advisory'']"
proof -
  have "lower ''https://example.org/Security-Update/42''
          = ''https://example.org/security-'' @ ''update'' @ ''/42''"
    by code_simp
  moreover have "''update'' \<in> set patch_keywords"
    by (simp add: patch_keywords_def)
  ultimately show ?thesis
    using is_likely_patch_iff
      [of "''https://example.org/Security-Update/42''" "[''Vendor Advisory'']"]
    by blast
qed

text \<open>
  C9, as the claim states it, fails: a reference whose URL has no keyword and whose only
  tag is \<open>patch\<close> in lower case has a tag that contains a keyword, and is not classified.
\<close>

theorem is_likely_patch_ignores_tag_keywords:
  "\<not> is_likely_patch ''https://example.org/advisory/42'' [''patch'']
   \<and> str_contains (lower ''patch'') ''patch''"
  by code_simp

end
